theory Spec2Isabelle
  imports Complex_Main "HOL-Library.Sublist"
begin

section \<open>JavaScript values used by the dashboard\<close>

subsection \<open>Numbers\<close>

text \<open>
  A TypeScript \<open>number\<close> is an IEEE double. The model keeps the three special values
  apart from the finite ones and treats a finite value as the exact real it denotes:
  rounding and the sign of zero are outside the model (the zero of the model is the
  positive zero). Every operator below is the JavaScript operator of the same name.
\<close>

datatype jsnum = Num real | PosInf | NegInf | NaN

fun js_neg :: "jsnum \<Rightarrow> jsnum" where
  "js_neg (Num a) = Num (- a)"
| "js_neg PosInf = NegInf"
| "js_neg NegInf = PosInf"
| "js_neg NaN = NaN"

fun js_add :: "jsnum \<Rightarrow> jsnum \<Rightarrow> jsnum" where
  "js_add NaN b = NaN"
| "js_add a NaN = NaN"
| "js_add (Num a) (Num b) = Num (a + b)"
| "js_add PosInf NegInf = NaN"
| "js_add NegInf PosInf = NaN"
| "js_add PosInf b = PosInf"
| "js_add a PosInf = PosInf"
| "js_add NegInf b = NegInf"
| "js_add a NegInf = NegInf"

definition js_sub :: "jsnum \<Rightarrow> jsnum \<Rightarrow> jsnum" where
  "js_sub a b = js_add a (js_neg b)"



text \<open>The comparison \<open>a < b\<close>: false as soon as one side is NaN.\<close>

fun js_lt :: "jsnum \<Rightarrow> jsnum \<Rightarrow> bool" where
  "js_lt NaN b = False"
| "js_lt a NaN = False"
| "js_lt (Num a) (Num b) = (a < b)"
| "js_lt (Num a) PosInf = True"
| "js_lt (Num a) NegInf = False"
| "js_lt PosInf b = False"
| "js_lt NegInf NegInf = False"
| "js_lt NegInf b = True"

definition js_gt :: "jsnum \<Rightarrow> jsnum \<Rightarrow> bool" where
  "js_gt a b = js_lt b a"




text \<open>\<open>Number.isNaN\<close>, truthiness of a number (zero and NaN are falsy) and \<open>a || b\<close>.\<close>

definition isNaN :: "jsnum \<Rightarrow> bool" where
  "isNaN a = (a = NaN)"



subsection \<open>Strings\<close>

text \<open>
  A string is a list of characters; a character outside ASCII stands as the bytes of
  its UTF-8 encoding. \<open>toLowerCase\<close> maps the letters A to Z and \<open>trim\<close> strips
  the ASCII white space and line terminators; case mappings and white space outside
  ASCII are outside the model.
\<close>

definition toLowerChar :: "char \<Rightarrow> char" where
  "toLowerChar c =
     (case map_of (zip ''ABCDEFGHIJKLMNOPQRSTUVWXYZ'' ''abcdefghijklmnopqrstuvwxyz'') c of
        Some l \<Rightarrow> l
      | None \<Rightarrow> c)"

definition toLowerCase :: "string \<Rightarrow> string" where
  "toLowerCase s = map toLowerChar s"

definition isWhiteSpace :: "char \<Rightarrow> bool" where
  "isWhiteSpace c = (of_char c \<in> {9, 10, 11, 12, 13, 32 :: nat})"

definition trim :: "string \<Rightarrow> string" where
  "trim s = rev (dropWhile isWhiteSpace (rev (dropWhile isWhiteSpace s)))"

text \<open>\<open>s.includes(t)\<close>: \<open>t\<close> occurs in \<open>s\<close> at some position.\<close>

fun js_includes :: "string \<Rightarrow> string \<Rightarrow> bool" where
  "js_includes [] t = (t = [])"
| "js_includes (c # s) t = (prefix t (c # s) \<or> js_includes s t)"

section \<open>Data model\<close>

datatype risk_level = Low | Medium | High

record DeviationRow =
  clause :: string
  baseline :: string
  supplier :: string
  deviation :: string
  dev_riskLevel :: risk_level
  recommendation :: string
  score :: jsnum

record ProjectRow =
  project_id :: string
  username :: string
  projectName :: string
  createdAt :: string
  updatedAt :: string
  riskLevel :: risk_level
  totalWeightedScore :: jsnum
  supplierDocTitle :: string
  baselineDocTitle :: string
  supplierDocUrl :: string
  baselineDocUrl :: string
  deviations :: "DeviationRow list"

subsection \<open>The sample projects\<close>

text \<open>
  The en dash of the project names is the UTF-8 sequence E2 80 93, the non-breaking
  hyphen of the clause texts is E2 80 91.
\<close>

definition dev_security :: DeviationRow where
  "dev_security = \<lparr>
     clause = ''Security'',
     baseline = ''If there is any unauthorized handling or loss of, or inability to account for any Confidential Information ...'',
     supplier = ''For as long as any Confidential Information is in the Receiving Party's possession or control, the Receiving Party will protect and maintain the confidentiality and security ...'',
     deviation = ''Security obligations are less prescriptive than TD baseline and do not include explicit incident remediation steps.'',
     dev_riskLevel = High,
     recommendation = ''Align security obligations with TD baseline incident handling language.'',
     score = Num 6 \<rparr>"

definition dev_confidentiality :: DeviationRow where
  "dev_confidentiality = \<lparr>
     clause = ''Confidentiality'',
     baseline = ''Confidential Information does not include information that is or becomes public, independently developed, or obtained from a third party without breach ...'',
     supplier = [CHR 0x22] @ ''Confidential Information'' @ [CHR 0x22] @ '' means any non''
       @ [CHR 0xE2, CHR 0x80, CHR 0x91] @ ''public proprietary information ...'',
     deviation = ''Confidentiality carve-outs narrowed; survival period reduced compared to TD baseline.'',
     dev_riskLevel = Medium,
     recommendation = ''Restore full TD carve'' @ [CHR 0xE2, CHR 0x80, CHR 0x91]
       @ ''outs and minimum survival period.'',
     score = Num 3 \<rparr>"

definition dev_general :: DeviationRow where
  "dev_general = \<lparr>
     clause = ''General provisions'',
     baseline = ''Agreement governed by the laws of Ontario, Canada ...'',
     supplier = ''Agreement governed by the laws of Delaware, USA ...'',
     deviation = ''Governing law moved away from TD's standard jurisdiction.'',
     dev_riskLevel = Medium,
     recommendation = ''Keep Ontario governing law unless approved as an exception.'',
     score = Num 3 \<rparr>"

definition dev_duration :: DeviationRow where
  "dev_duration = \<lparr>
     clause = ''Duration & termination'',
     baseline = ''Either party may terminate for convenience upon 30 days' written notice ...'',
     supplier = ''Supplier may terminate for convenience; TD may terminate only for cause ...'',
     deviation = ''TD termination for convenience removed.'',
     dev_riskLevel = Low,
     recommendation = ''Re'' @ [CHR 0xE2, CHR 0x80, CHR 0x91]
       @ ''introduce TD termination for convenience right.'',
     score = Num 1 \<rparr>"

definition project1 :: ProjectRow where
  "project1 = \<lparr>
     project_id = ''1'',
     username = ''TAE7758'',
     projectName = ''TD NDA '' @ [CHR 0xE2, CHR 0x80, CHR 0x93] @ '' High & Low Changes'',
     createdAt = ''2025-11-16T23:00:00Z'',
     updatedAt = ''2025-11-16T23:40:00Z'',
     riskLevel = Medium,
     totalWeightedScore = Num 2.5,
     supplierDocTitle = ''Supplier NDA.docx'',
     baselineDocTitle = ''TD Baseline NDA.docx'',
     supplierDocUrl = ''/api/documents/supplier-nda'',
     baselineDocUrl = ''/api/documents/td-baseline-nda'',
     deviations = [dev_security, dev_confidentiality, dev_general, dev_duration] \<rparr>"

definition project2 :: ProjectRow where
  "project2 = \<lparr>
     project_id = ''2'',
     username = ''WYATT12'',
     projectName = ''OC Demo '' @ [CHR 0xE2, CHR 0x80, CHR 0x93] @ '' Supplier ABC'',
     createdAt = ''2025-11-14T18:20:00Z'',
     updatedAt = ''2025-11-14T18:45:00Z'',
     riskLevel = High,
     totalWeightedScore = Num 3.9,
     supplierDocTitle = ''Supplier OC.docx'',
     baselineDocTitle = ''TD Baseline OC.docx'',
     supplierDocUrl = ''/api/documents/supplier-oc'',
     baselineDocUrl = ''/api/documents/td-baseline-oc'',
     deviations = [] \<rparr>"

definition project3 :: ProjectRow where
  "project3 = \<lparr>
     project_id = ''3'',
     username = ''TAF7337'',
     projectName = ''New Model Output Test'',
     createdAt = ''2025-11-13T17:50:00Z'',
     updatedAt = ''2025-11-13T18:00:00Z'',
     riskLevel = Low,
     totalWeightedScore = Num 0.7,
     supplierDocTitle = ''Supplier Model.docx'',
     baselineDocTitle = ''TD Baseline Model.docx'',
     supplierDocUrl = ''/api/documents/supplier-model'',
     baselineDocUrl = ''/api/documents/td-baseline-model'',
     deviations = [] \<rparr>"

definition mockProjects :: "ProjectRow list" where
  "mockProjects = [project1, project2, project3]"

section \<open>The dashboard's table state\<close>

datatype risk_filter = FilterAll | FilterHigh | FilterMedium | FilterLow

datatype sort_key = KeyCreatedAt | KeyUpdatedAt | KeyTotalWeightedScore

datatype sort_direction = Asc | Desc

text \<open>
  The state of \<open>IterationTrackerDashboard\<close> that the table is computed from.
  \<open>pageSize\<close> and \<open>currentPage\<close> only ever hold integers (the initial values, the
  values of the page-size options, and results of \<open>Math.max\<close>, \<open>Math.min\<close> and
  \<open>\<plusminus> 1\<close> on these), so they are integers here.
\<close>

record table_state =
  searchTerm :: string
  riskFilter :: risk_filter
  userFilter :: string
  sortKey :: sort_key
  sortDir :: sort_direction
  pageSize :: int
  currentPage :: int

definition initial_state :: table_state where
  "initial_state = \<lparr>
     searchTerm = '''',
     riskFilter = FilterAll,
     userFilter = ''All'',
     sortKey = KeyUpdatedAt,
     sortDir = Desc,
     pageSize = 10,
     currentPage = 0 \<rparr>"

subsection \<open>Filtering\<close>

text \<open>
  The list of projects is a parameter of the table's functions: the component reads
  the constant \<open>mockProjects\<close>, which stands for the data of a backend.
  \<open>p.riskLevel === riskFilter\<close> compares the two string literals, so a risk level
  equals a filter value exactly when they are the same word.
\<close>

fun risk_as_filter :: "risk_level \<Rightarrow> risk_filter" where
  "risk_as_filter High = FilterHigh"
| "risk_as_filter Medium = FilterMedium"
| "risk_as_filter Low = FilterLow"

definition matchesSearch :: "table_state \<Rightarrow> ProjectRow \<Rightarrow> bool" where
  "matchesSearch st p =
     (trim (searchTerm st) = []
      \<or> js_includes (toLowerCase (username p)) (toLowerCase (searchTerm st))
      \<or> js_includes (toLowerCase (projectName p)) (toLowerCase (searchTerm st)))"

definition matchesRisk :: "table_state \<Rightarrow> ProjectRow \<Rightarrow> bool" where
  "matchesRisk st p = (riskFilter st = FilterAll \<or> risk_as_filter (riskLevel p) = riskFilter st)"

definition matchesUser :: "table_state \<Rightarrow> ProjectRow \<Rightarrow> bool" where
  "matchesUser st p = (userFilter st = ''All'' \<or> username p = userFilter st)"

definition filteredProjects :: "ProjectRow list \<Rightarrow> table_state \<Rightarrow> ProjectRow list" where
  "filteredProjects projects st =
     filter (\<lambda>p. matchesSearch st p \<and> matchesRisk st p \<and> matchesUser st p) projects"

subsection \<open>Sorting\<close>

text \<open>
  \<open>new Date(s).getTime()\<close> is the host's date parser: the parameter \<open>getTime\<close>,
  which returns NaN for a string it cannot parse. The \<open>default\<close> branch of the
  \<open>switch\<close> is not reachable for a value of \<open>sort_key\<close>.
\<close>

definition sortValue :: "(string \<Rightarrow> jsnum) \<Rightarrow> sort_key \<Rightarrow> ProjectRow \<Rightarrow> jsnum" where
  "sortValue getTime k p =
     (case k of
        KeyCreatedAt \<Rightarrow> getTime (createdAt p)
      | KeyUpdatedAt \<Rightarrow> getTime (updatedAt p)
      | KeyTotalWeightedScore \<Rightarrow> totalWeightedScore p)"

definition compareProjects ::
  "(string \<Rightarrow> jsnum) \<Rightarrow> table_state \<Rightarrow> ProjectRow \<Rightarrow> ProjectRow \<Rightarrow> jsnum" where
  "compareProjects getTime st a b =
     (let aVal = sortValue getTime (sortKey st) a;
          bVal = sortValue getTime (sortKey st) b
      in if isNaN aVal \<or> isNaN bVal then Num 0
         else (let diff = js_sub aVal bVal
               in if sortDir st = Asc then diff else js_neg diff))"

text \<open>
  \<open>Array.prototype.sort\<close> with a comparator is stable; its algorithm is the host's.
  The model is the stable insertion sort: an element moves behind another one only
  when the comparator returns a number greater than zero for the pair.
\<close>

fun insertSorted :: "('a \<Rightarrow> 'a \<Rightarrow> jsnum) \<Rightarrow> 'a \<Rightarrow> 'a list \<Rightarrow> 'a list" where
  "insertSorted cmp x [] = [x]"
| "insertSorted cmp x (y # ys) =
     (if js_gt (cmp x y) (Num 0) then y # insertSorted cmp x ys else x # y # ys)"

fun js_sort :: "('a \<Rightarrow> 'a \<Rightarrow> jsnum) \<Rightarrow> 'a list \<Rightarrow> 'a list" where
  "js_sort cmp [] = []"
| "js_sort cmp (x # xs) = insertSorted cmp x (js_sort cmp xs)"

definition sortedProjects ::
  "(string \<Rightarrow> jsnum) \<Rightarrow> ProjectRow list \<Rightarrow> table_state \<Rightarrow> ProjectRow list" where
  "sortedProjects getTime projects st =
     js_sort (compareProjects getTime st) (filteredProjects projects st)"

subsection \<open>Pagination\<close>

text \<open>
  \<open>xs.slice(start, stop)\<close> for integer arguments: a negative index counts from the
  end, both indices are clamped to the array, and an empty range gives the empty array.
\<close>

definition js_slice :: "'a list \<Rightarrow> int \<Rightarrow> int \<Rightarrow> 'a list" where
  "js_slice xs start stop =
     (let len = int (length xs);
          k = (if start < 0 then max (len + start) 0 else min start len);
          final = (if stop < 0 then max (len + stop) 0 else min stop len)
      in take (nat (final - k)) (drop (nat k) xs))"

text \<open>
  \<open>Math.max(1, Math.ceil(sortedProjects.length / pageSize))\<close>. The quotient is the
  real one for a positive page size; a page size of zero or below (where JavaScript
  divides to an infinity or NaN) is never stored, and the theorems assume it positive.
\<close>

definition totalPages :: "(string \<Rightarrow> jsnum) \<Rightarrow> ProjectRow list \<Rightarrow> table_state \<Rightarrow> int" where
  "totalPages getTime projects st =
     max 1 \<lceil>real (length (sortedProjects getTime projects st)) / real_of_int (pageSize st)\<rceil>"

definition safePage :: "(string \<Rightarrow> jsnum) \<Rightarrow> ProjectRow list \<Rightarrow> table_state \<Rightarrow> int" where
  "safePage getTime projects st = min (currentPage st) (totalPages getTime projects st - 1)"

definition startIndex :: "(string \<Rightarrow> jsnum) \<Rightarrow> ProjectRow list \<Rightarrow> table_state \<Rightarrow> int" where
  "startIndex getTime projects st = safePage getTime projects st * pageSize st"

definition paginatedProjects ::
  "(string \<Rightarrow> jsnum) \<Rightarrow> ProjectRow list \<Rightarrow> table_state \<Rightarrow> ProjectRow list" where
  "paginatedProjects getTime projects st =
     js_slice (sortedProjects getTime projects st)
       (startIndex getTime projects st)
       (startIndex getTime projects st + pageSize st)"

subsection \<open>Events\<close>

text \<open>
  The user's inputs on the table. The rows-per-page control offers exactly the values
  of \<open>pageSizeOptions\<close>; the Prev and Next buttons are disabled, and so deliver no
  click, on the first and on the last page.
\<close>

datatype event =
    SearchChanged string
  | RiskFilterChanged risk_filter
  | UserFilterChanged string
  | PageSizeChanged int
  | PrevClicked
  | NextClicked
  | SortClicked sort_key

definition pageSizeOptions :: "int list" where
  "pageSizeOptions = [5, 10, 20, 50, 100]"

fun valid_event :: "event \<Rightarrow> bool" where
  "valid_event (PageSizeChanged n) = (n \<in> set pageSizeOptions)"
| "valid_event ev = True"

definition handleSort :: "table_state \<Rightarrow> sort_key \<Rightarrow> table_state" where
  "handleSort st key =
     (if sortKey st = key
      then st\<lparr>sortDir := (if sortDir st = Asc then Desc else Asc)\<rparr>
      else st\<lparr>sortKey := key, sortDir := Desc\<rparr>)"

fun handleEvent ::
  "(string \<Rightarrow> jsnum) \<Rightarrow> ProjectRow list \<Rightarrow> table_state \<Rightarrow> event \<Rightarrow> table_state" where
  "handleEvent getTime projects st (SearchChanged v) = st\<lparr>searchTerm := v, currentPage := 0\<rparr>"
| "handleEvent getTime projects st (RiskFilterChanged v) = st\<lparr>riskFilter := v, currentPage := 0\<rparr>"
| "handleEvent getTime projects st (UserFilterChanged v) = st\<lparr>userFilter := v, currentPage := 0\<rparr>"
| "handleEvent getTime projects st (PageSizeChanged n) = st\<lparr>pageSize := n, currentPage := 0\<rparr>"
| "handleEvent getTime projects st PrevClicked =
     (if safePage getTime projects st = 0 then st
      else st\<lparr>currentPage := max 0 (currentPage st - 1)\<rparr>)"
| "handleEvent getTime projects st NextClicked =
     (if safePage getTime projects st \<ge> totalPages getTime projects st - 1 then st
      else st\<lparr>currentPage := min (totalPages getTime projects st - 1) (currentPage st + 1)\<rparr>)"
| "handleEvent getTime projects st (SortClicked key) = handleSort st key"

text \<open>
  The effect that runs after every render in which \<open>currentPage\<close> or \<open>totalPages\<close>
  changed: "Ensure page index is valid when page count shrinks".
\<close>

definition clampEffect ::
  "(string \<Rightarrow> jsnum) \<Rightarrow> ProjectRow list \<Rightarrow> table_state \<Rightarrow> table_state" where
  "clampEffect getTime projects st =
     (if currentPage st > totalPages getTime projects st - 1
      then st\<lparr>currentPage := totalPages getTime projects st - 1\<rparr>
      else st)"

text \<open>One input: the handler's state update, the render, then the effect.\<close>

definition step ::
  "(string \<Rightarrow> jsnum) \<Rightarrow> ProjectRow list \<Rightarrow> table_state \<Rightarrow> event \<Rightarrow> table_state" where
  "step getTime projects st ev = clampEffect getTime projects (handleEvent getTime projects st ev)"

inductive reachable :: "(string \<Rightarrow> jsnum) \<Rightarrow> ProjectRow list \<Rightarrow> table_state \<Rightarrow> bool"
  for getTime :: "string \<Rightarrow> jsnum" and projects :: "ProjectRow list" where
  reachable_init: "reachable getTime projects initial_state"
| reachable_step:
    "reachable getTime projects st \<Longrightarrow> valid_event ev
     \<Longrightarrow> reachable getTime projects (step getTime projects st ev)"

text \<open>The changes of the search term, of a filter and of the page size.\<close>

fun is_filter_change :: "event \<Rightarrow> bool" where
  "is_filter_change (SearchChanged v) = True"
| "is_filter_change (RiskFilterChanged v) = True"
| "is_filter_change (UserFilterChanged v) = True"
| "is_filter_change ev = False"

fun is_page_size_change :: "event \<Rightarrow> bool" where
  "is_page_size_change (PageSizeChanged n) = True"
| "is_page_size_change ev = False"

section \<open>The deviation and risk summary modal\<close>









section \<open>The document viewer\<close>

type_synonym bytes = "nat list"

datatype js_error = NetworkError | HttpStatusError nat | BodyError | RenderError | ENOENT

text \<open>
  The response of \<open>fetch\<close>: its status and the outcome of \<open>arrayBuffer()\<close>;
  \<open>res.ok\<close> holds for the statuses 200 to 299.
\<close>

record fetch_response =
  res_status :: nat
  res_arrayBuffer :: "js_error + bytes"

definition res_ok :: "fetch_response \<Rightarrow> bool" where
  "res_ok res = (200 \<le> res_status res \<and> res_status res \<le> 299)"

text \<open>
  The viewer: its \<open>open\<close> and \<open>url\<close> props and the content of the element behind
  \<open>containerRef\<close> (\<open>None\<close> while the element is not mounted).
\<close>

record viewer =
  viewer_open :: bool
  viewer_url :: string
  container :: "string option"

definition fallbackNotice :: string where
  "fallbackNotice = ''<p style='color:#b91c1c;font-size:12px'>Document preview is unavailable. Please download and open locally.</p>''"

text \<open>
  The body of the \<open>try\<close> block, on the element's content \<open>el\<close>. The network and the
  rendering library are parameters: \<open>fetch\<close> rejects or responds, and \<open>render\<close>
  gives the content it has written into the emptied element and the error it throws,
  if any. The result is the error thrown with the content at that moment, or the final
  content.
\<close>

definition previewTry ::
  "(string \<Rightarrow> js_error + fetch_response) \<Rightarrow> (bytes \<Rightarrow> string \<times> js_error option)
   \<Rightarrow> string \<Rightarrow> string \<Rightarrow> js_error \<times> string + string" where
  "previewTry fetch render url el =
     (case fetch url of
        Inl err \<Rightarrow> Inl (err, el)
      | Inr res \<Rightarrow>
          if \<not> res_ok res then Inl (HttpStatusError (res_status res), el)
          else (case res_arrayBuffer res of
                  Inl err \<Rightarrow> Inl (err, el)
                | Inr buffer \<Rightarrow>
                    (case render buffer of
                       (html, Some err) \<Rightarrow> Inl (err, html)
                     | (html, None) \<Rightarrow> Inr html)))"

text \<open>
  The effect of the viewer: the guard, the \<open>try\<close> block and its \<open>catch\<close>. An
  exception that left the effect would be the result \<open>Inl\<close>.
\<close>

definition previewEffect ::
  "(string \<Rightarrow> js_error + fetch_response) \<Rightarrow> (bytes \<Rightarrow> string \<times> js_error option)
   \<Rightarrow> viewer \<Rightarrow> js_error + viewer" where
  "previewEffect fetch render v =
     (case container v of
        None \<Rightarrow> Inr v
      | Some el \<Rightarrow>
          if \<not> viewer_open v \<or> viewer_url v = [] then Inr v
          else (case previewTry fetch render (viewer_url v) el of
                  Inr html \<Rightarrow> Inr (v\<lparr>container := Some html\<rparr>)
                | Inl (err, partial) \<Rightarrow> Inr (v\<lparr>container := Some fallbackNotice\<rparr>)))"

section \<open>The document endpoint\<close>

text \<open>
  \<open>GET\<close> of \<open>/api/documents/supplier-nda\<close>. The file system maps a path to the
  bytes of the file there; \<open>readFileSync\<close> throws where there is no file.
  \<open>path.join\<close> puts a slash between the segments (the segments here need no
  normalisation).
\<close>

fun path_join :: "string list \<Rightarrow> string" where
  "path_join [] = ''.''"
| "path_join [seg] = seg"
| "path_join (seg # segs) = seg @ ''/'' @ path_join segs"

definition readFileSync :: "(string \<Rightarrow> bytes option) \<Rightarrow> string \<Rightarrow> js_error + bytes" where
  "readFileSync fs path = (case fs path of None \<Rightarrow> Inl ENOENT | Some content \<Rightarrow> Inr content)"

record http_response =
  status :: nat
  headers :: "(string \<times> string) list"
  body :: bytes

definition GET :: "(string \<Rightarrow> bytes option) \<Rightarrow> string \<Rightarrow> js_error + http_response" where
  "GET fs cwd =
     (let filePath = path_join [cwd, ''public'', ''docs'', ''supplier.docx'']
      in case readFileSync fs filePath of
           Inl err \<Rightarrow> Inl err
         | Inr fileBuffer \<Rightarrow>
             Inr \<lparr> status = 200,
                   headers = [(''Content-Type'',
                     ''application/vnd.openxmlformats-officedocument.wordprocessingml.document'')],
                   body = fileBuffer \<rparr>)"

section \<open>Fixtures for concrete runs\<close>

text \<open>
  The timestamps of the sample projects as the date parser reads them (milliseconds
  since the epoch, UTC); every other string of the fixture is an invalid date.
\<close>

definition sampleGetTime :: "string \<Rightarrow> jsnum" where
  "sampleGetTime s =
     (if s = ''2025-11-16T23:00:00Z'' then Num 1763334000000
      else if s = ''2025-11-16T23:40:00Z'' then Num 1763336400000
      else if s = ''2025-11-14T18:20:00Z'' then Num 1763144400000
      else if s = ''2025-11-14T18:45:00Z'' then Num 1763145900000
      else if s = ''2025-11-13T17:50:00Z'' then Num 1763056200000
      else if s = ''2025-11-13T18:00:00Z'' then Num 1763056800000
      else NaN)"

text \<open>
  Twelve projects, six of high and six of low risk, for runs with more than one page.
\<close>

definition twelveProjects :: "ProjectRow list" where
  "twelveProjects =
     map (\<lambda>n. project2\<lparr>project_id := n\<rparr>) [''h1'', ''h2'', ''h3'', ''h4'', ''h5'', ''h6'']
     @ map (\<lambda>n. project3\<lparr>project_id := n\<rparr>) [''l1'', ''l2'', ''l3'', ''l4'', ''l5'', ''l6'']"

text \<open>The third page of the twelve projects at five rows per page, as the user reaches it.\<close>

definition thirdPage :: table_state where
  "thirdPage =
     step sampleGetTime twelveProjects
       (step sampleGetTime twelveProjects
          (step sampleGetTime twelveProjects initial_state (PageSizeChanged 5))
          NextClicked)
       NextClicked"

section \<open>The specification's reading of the search\<close>


section \<open>Properties of the table\<close>

subsection \<open>Searching and filtering\<close>



lemma trim_Nil: "trim [] = []"
  by (simp add: trim_def)


subsection \<open>Sorting\<close>

lemma length_insertSorted: "length (insertSorted cmp x xs) = Suc (length xs)"
  by (induction xs) auto

lemma length_js_sort: "length (js_sort cmp xs) = length xs"
  by (induction xs) (auto simp: length_insertSorted)

lemma length_sortedProjects:
  "length (sortedProjects getTime projects st) = length (filteredProjects projects st)"
  by (simp add: sortedProjects_def length_js_sort)

text \<open>
  C8. Under the sort key createdAt, and under updatedAt, the comparator returns 0 for
  two projects as soon as the date of one of them does not parse (both, or either
  one), in the ascending and in the descending direction.
\<close>

theorem invalid_date_compares_equal:
  "(getTime (createdAt a) = NaN \<or> getTime (createdAt b) = NaN
      \<longrightarrow> compareProjects getTime (st\<lparr>sortKey := KeyCreatedAt, sortDir := d\<rparr>) a b = Num 0)
   \<and> (getTime (updatedAt a) = NaN \<or> getTime (updatedAt b) = NaN
      \<longrightarrow> compareProjects getTime (st\<lparr>sortKey := KeyUpdatedAt, sortDir := d\<rparr>) a b = Num 0)"
  by (auto simp: compareProjects_def sortValue_def isNaN_def Let_def)

theorem invalid_date_compares_equal_witness:
  "sampleGetTime (createdAt (project1\<lparr>createdAt := ''not a date''\<rparr>)) = NaN
   \<and> compareProjects sampleGetTime (initial_state\<lparr>sortKey := KeyCreatedAt, sortDir := Asc\<rparr>)
        (project1\<lparr>createdAt := ''not a date''\<rparr>) project2 = Num 0
   \<and> sampleGetTime (updatedAt (project3\<lparr>updatedAt := ''''\<rparr>)) = NaN
   \<and> compareProjects sampleGetTime (initial_state\<lparr>sortKey := KeyUpdatedAt, sortDir := Desc\<rparr>)
        project1 (project3\<lparr>updatedAt := ''''\<rparr>) = Num 0"
  using invalid_date_compares_equal
    [where getTime = sampleGetTime and a = "project1\<lparr>createdAt := ''not a date''\<rparr>"
       and b = project2 and st = initial_state and d = Asc]
    invalid_date_compares_equal
    [where getTime = sampleGetTime and a = project1 and b = "project3\<lparr>updatedAt := ''''\<rparr>"
       and st = initial_state and d = Desc]
  by (simp add: sampleGetTime_def)

text \<open>The sample projects by ascending date of modification: the oldest first.\<close>

lemma sample_updatedAt:
  "sampleGetTime (updatedAt project1) = Num 1763336400000"
  "sampleGetTime (updatedAt project2) = Num 1763145900000"
  "sampleGetTime (updatedAt project3) = Num 1763056800000"
  by (simp_all add: sampleGetTime_def project1_def project2_def project3_def)

lemma sortedProjects_sample_ascending:
  "sortedProjects sampleGetTime mockProjects (initial_state\<lparr>sortDir := Asc\<rparr>)
     = [project3, project2, project1]"
proof -
  have f: "filteredProjects mockProjects (initial_state\<lparr>sortDir := Asc\<rparr>) = mockProjects"
    by (simp add: filteredProjects_def mockProjects_def matchesSearch_def matchesRisk_def
        matchesUser_def initial_state_def trim_def)
  have key: "sortKey (initial_state\<lparr>sortDir := Asc\<rparr>) = KeyUpdatedAt"
    by (simp add: initial_state_def)
  show ?thesis
    unfolding sortedProjects_def f
    by (simp add: mockProjects_def compareProjects_def sortValue_def sample_updatedAt
        isNaN_def js_sub_def js_gt_def key)
qed

subsection \<open>Pagination\<close>

lemma length_js_slice: "0 \<le> k \<Longrightarrow> int (length (js_slice xs s (s + k))) \<le> k"
  by (auto simp: js_slice_def Let_def min_def max_def)

lemma js_slice_first: "0 \<le> k \<Longrightarrow> js_slice xs 0 k = take (nat k) xs"
  by (auto simp: js_slice_def Let_def min_def)

lemma totalPages_ge_1: "1 \<le> totalPages getTime projects st"
  by (simp add: totalPages_def)

lemma filtered_initial: "filteredProjects mockProjects initial_state = mockProjects"
  by (simp add: filteredProjects_def mockProjects_def matchesSearch_def matchesRisk_def
      matchesUser_def initial_state_def trim_def)

text \<open>
  C5. For a positive page size, whatever the filters, the sort key, the direction and
  the current page are, the page shows at most \<open>pageSize\<close> rows, and the number of
  pages is the maximum of 1 and the filtered count divided by the page size, rounded up.
\<close>

theorem page_rows_and_count:
  assumes "0 < pageSize st"
  shows "int (length (paginatedProjects getTime projects st)) \<le> pageSize st
       \<and> totalPages getTime projects st
           = max 1 \<lceil>real (length (filteredProjects projects st)) / real_of_int (pageSize st)\<rceil>"
  using assms
  by (simp add: paginatedProjects_def length_js_slice totalPages_def length_sortedProjects)

theorem page_rows_and_count_witness:
  "0 < pageSize initial_state
   \<and> int (length (paginatedProjects sampleGetTime mockProjects initial_state)) \<le> 10
   \<and> totalPages sampleGetTime mockProjects initial_state = 1"
  using page_rows_and_count [of initial_state sampleGetTime mockProjects]
  by (simp add: filtered_initial) (simp add: initial_state_def mockProjects_def)

subsection \<open>The current page\<close>

lemma compareProjects_currentPage:
  "compareProjects getTime (st\<lparr>currentPage := c\<rparr>) = compareProjects getTime st"
  by (simp add: fun_eq_iff compareProjects_def Let_def)

lemma sortedProjects_currentPage [simp]:
  "sortedProjects getTime projects (st\<lparr>currentPage := c\<rparr>) = sortedProjects getTime projects st"
  by (simp add: sortedProjects_def filteredProjects_def matchesSearch_def matchesRisk_def
      matchesUser_def compareProjects_currentPage)

lemma totalPages_currentPage [simp]:
  "totalPages getTime projects (st\<lparr>currentPage := c\<rparr>) = totalPages getTime projects st"
  by (simp add: totalPages_def)


lemma totalPages_clampEffect [simp]:
  "totalPages getTime projects (clampEffect getTime projects st) = totalPages getTime projects st"
  by (simp add: clampEffect_def)

lemma pageSize_clampEffect [simp]:
  "pageSize (clampEffect getTime projects st) = pageSize st"
  by (simp add: clampEffect_def)

text \<open>
  The effect sets the state only when the page is out of range, and after it the page
  is in range: the render that follows changes nothing more.
\<close>

lemma clampEffect_idem:
  "clampEffect getTime projects (clampEffect getTime projects st) = clampEffect getTime projects st"
  by (simp add: clampEffect_def)

lemma clampEffect_in_range:
  "currentPage st \<le> totalPages getTime projects st - 1 \<Longrightarrow> clampEffect getTime projects st = st"
  by (simp add: clampEffect_def)

lemma clampEffect_zero:
  "currentPage st = 0 \<Longrightarrow> clampEffect getTime projects st = st"
  using totalPages_ge_1 [of getTime projects st] by (simp add: clampEffect_def)


lemma handleEvent_pageSize:
  "valid_event ev \<Longrightarrow> pageSize st \<in> set pageSizeOptions
   \<Longrightarrow> pageSize (handleEvent getTime projects st ev) \<in> set pageSizeOptions"
  by (cases ev) (auto simp: handleSort_def)



lemma step_filter_change:
  assumes "is_filter_change ev \<or> is_page_size_change ev"
  shows "currentPage (step getTime projects st ev) = 0"
  using assms by (cases ev) (simp_all add: step_def clampEffect_zero)

lemma paginated_first_page:
  assumes "currentPage st = 0" "0 < pageSize st"
  shows "paginatedProjects getTime projects st
           = take (nat (pageSize st)) (sortedProjects getTime projects st)"
  using assms totalPages_ge_1 [of getTime projects st]
  by (simp add: paginatedProjects_def startIndex_def safePage_def js_slice_first)

subsection \<open>A run over three pages\<close>

lemma filtered_twelve_all:
  "searchTerm st = [] \<Longrightarrow> userFilter st = ''All'' \<Longrightarrow> riskFilter st = FilterAll
   \<Longrightarrow> filteredProjects twelveProjects st = twelveProjects"
  by (simp add: filteredProjects_def matchesSearch_def matchesRisk_def matchesUser_def trim_Nil)

lemma length_twelve: "length twelveProjects = 12"
  by (simp add: twelveProjects_def)

lemma totalPages_twelve_all:
  "searchTerm st = [] \<Longrightarrow> userFilter st = ''All'' \<Longrightarrow> riskFilter st = FilterAll
   \<Longrightarrow> pageSize st = 5 \<Longrightarrow> totalPages getTime twelveProjects st = 3"
  by (simp add: totalPages_def length_sortedProjects filtered_twelve_all length_twelve)



lemma twelve_step1:
  "step sampleGetTime twelveProjects initial_state (PageSizeChanged 5)
     = initial_state\<lparr>pageSize := 5\<rparr>"
  by (simp add: step_def clampEffect_zero) (simp add: initial_state_def)

lemma twelve_step2:
  "step sampleGetTime twelveProjects (initial_state\<lparr>pageSize := 5\<rparr>) NextClicked
     = initial_state\<lparr>pageSize := 5, currentPage := 1\<rparr>"
proof -
  have tp: "totalPages sampleGetTime twelveProjects (initial_state\<lparr>pageSize := 5\<rparr>) = 3"
    by (rule totalPages_twelve_all) (simp_all add: initial_state_def)
  show ?thesis
    by (simp add: step_def safePage_def tp clampEffect_in_range) (simp add: initial_state_def)
qed

lemma twelve_step3:
  "step sampleGetTime twelveProjects (initial_state\<lparr>pageSize := 5, currentPage := 1\<rparr>)
     NextClicked
     = initial_state\<lparr>pageSize := 5, currentPage := 2\<rparr>"
proof -
  have tp: "totalPages sampleGetTime twelveProjects (initial_state\<lparr>pageSize := 5\<rparr>) = 3"
    by (rule totalPages_twelve_all) (simp_all add: initial_state_def)
  show ?thesis
    by (simp add: step_def safePage_def tp clampEffect_in_range)
qed

lemma thirdPage_eq: "thirdPage = initial_state\<lparr>pageSize := 5, currentPage := 2\<rparr>"
  by (simp add: thirdPage_def twelve_step1 twelve_step2 twelve_step3)





text \<open>
  C10. A change of the search term, of the risk filter, of the user filter or of the
  page size (to one of the offered sizes) sets the current page index to 0, whatever
  it was and however many pages remain; the page shown afterwards is the first page,
  the first \<open>pageSize\<close> rows of the new sorted result.
\<close>

theorem filter_change_first_page:
  assumes "is_filter_change ev \<or> is_page_size_change ev" and "valid_event ev"
    and "pageSize st \<in> set pageSizeOptions"
  shows "currentPage (step getTime projects st ev) = 0
       \<and> safePage getTime projects (step getTime projects st ev) = 0
       \<and> paginatedProjects getTime projects (step getTime projects st ev)
           = take (nat (pageSize (step getTime projects st ev)))
               (sortedProjects getTime projects (step getTime projects st ev))"
proof -
  let ?st = "step getTime projects st ev"
  have page: "currentPage ?st = 0"
    using assms(1) by (rule step_filter_change)
  have "pageSize ?st \<in> set pageSizeOptions"
    using handleEvent_pageSize [OF assms(2,3)] by (simp add: step_def)
  then have size: "0 < pageSize ?st"
    by (auto simp: pageSizeOptions_def)
  have "safePage getTime projects ?st = 0"
    using page totalPages_ge_1 [of getTime projects ?st] by (simp add: safePage_def)
  with page size show ?thesis
    by (simp add: paginated_first_page)
qed

theorem filter_change_first_page_witness:
  "(is_filter_change (PageSizeChanged 10) \<or> is_page_size_change (PageSizeChanged 10))
   \<and> valid_event (PageSizeChanged 10)
   \<and> pageSize thirdPage \<in> set pageSizeOptions
   \<and> currentPage thirdPage = 2
   \<and> currentPage (step sampleGetTime twelveProjects thirdPage (PageSizeChanged 10)) = 0
   \<and> safePage sampleGetTime twelveProjects
        (step sampleGetTime twelveProjects thirdPage (PageSizeChanged 10)) = 0
   \<and> paginatedProjects sampleGetTime twelveProjects
        (step sampleGetTime twelveProjects thirdPage (PageSizeChanged 10))
       = take 10 (sortedProjects sampleGetTime twelveProjects
           (step sampleGetTime twelveProjects thirdPage (PageSizeChanged 10)))"
proof -
  have st: "step sampleGetTime twelveProjects thirdPage (PageSizeChanged 10)
      = initial_state\<lparr>pageSize := 10\<rparr>"
    by (simp add: step_def clampEffect_zero thirdPage_eq) (simp add: initial_state_def)
  show ?thesis
    using filter_change_first_page [of "PageSizeChanged 10" thirdPage sampleGetTime twelveProjects]
    by (simp add: pageSizeOptions_def st) (simp add: thirdPage_eq)
qed

subsection \<open>The sample projects under the risk filter "High"\<close>








section \<open>Properties of the summary modal\<close>









section \<open>Properties of the document viewer\<close>

text \<open>
  C7. For an open viewer with a URL and a mounted content element: when the fetch
  rejects, when the response is not OK (status 404, say), when reading the body
  fails and when the renderer throws, the effect ends without an exception and the
  content element holds the fallback notice; and whatever the outcome is, no exception
  leaves the effect and the viewer stays open.
\<close>

theorem viewer_fallback:
  assumes "viewer_open v" and "viewer_url v \<noteq> []" and "container v = Some el"
  shows "(fetch (viewer_url v) = Inl err \<longrightarrow>
            previewEffect fetch render v = Inr (v\<lparr>container := Some fallbackNotice\<rparr>))
       \<and> (fetch (viewer_url v) = Inr res \<and> \<not> res_ok res \<longrightarrow>
            previewEffect fetch render v = Inr (v\<lparr>container := Some fallbackNotice\<rparr>))
       \<and> (fetch (viewer_url v) = Inr res \<and> res_ok res \<and> res_arrayBuffer res = Inl err \<longrightarrow>
            previewEffect fetch render v = Inr (v\<lparr>container := Some fallbackNotice\<rparr>))
       \<and> (fetch (viewer_url v) = Inr res \<and> res_ok res \<and> res_arrayBuffer res = Inr buffer
            \<and> render buffer = (html, Some err) \<longrightarrow>
            previewEffect fetch render v = Inr (v\<lparr>container := Some fallbackNotice\<rparr>))
       \<and> map_sum id viewer_open (previewEffect fetch render v) = Inr True"
  using assms
  by (auto simp: previewEffect_def previewTry_def split: sum.splits prod.splits option.splits)

theorem viewer_fallback_witness:
  "viewer_open
     \<lparr>viewer_open = True, viewer_url = ''/api/documents/supplier-oc'', container = Some []\<rparr>
   \<and> \<not> res_ok \<lparr>res_status = 404, res_arrayBuffer = Inr []\<rparr>
   \<and> previewEffect (\<lambda>url. Inr \<lparr>res_status = 404, res_arrayBuffer = Inr []\<rparr>)
        (\<lambda>buffer. ([], None))
        \<lparr>viewer_open = True, viewer_url = ''/api/documents/supplier-oc'', container = Some []\<rparr>
       = Inr \<lparr>viewer_open = True, viewer_url = ''/api/documents/supplier-oc'',
               container = Some fallbackNotice\<rparr>"
  using viewer_fallback
    [where v = "\<lparr>viewer_open = True, viewer_url = ''/api/documents/supplier-oc'',
                  container = Some []\<rparr>"
       and el = "[]" and fetch = "\<lambda>url. Inr \<lparr>res_status = 404, res_arrayBuffer = Inr []\<rparr>"
       and res = "\<lparr>res_status = 404, res_arrayBuffer = Inr []\<rparr>"
       and render = "\<lambda>buffer. ([], None)"]
  by (simp add: res_ok_def)

section \<open>Properties of the document endpoint\<close>

text \<open>
  C9. When the file \<open>public/docs/supplier.docx\<close> exists under the working directory,
  \<open>GET\<close> answers with the status 200, the bytes of the file as the body and the
  Content-Type of a word-processing document.
\<close>

theorem GET_supplier_nda:
  assumes "fs (path_join [cwd, ''public'', ''docs'', ''supplier.docx'']) = Some content"
  shows "GET fs cwd =
     Inr \<lparr> status = 200,
           headers = [(''Content-Type'',
             ''application/vnd.openxmlformats-officedocument.wordprocessingml.document'')],
           body = content \<rparr>"
  using assms by (simp add: GET_def readFileSync_def)

theorem GET_supplier_nda_witness:
  "(\<lambda>path. if path = ''/app/public/docs/supplier.docx'' then Some [80, 75, 3, 4] else None)
      (path_join [''/app'', ''public'', ''docs'', ''supplier.docx'']) = Some [80, 75, 3, 4]
   \<and> GET (\<lambda>path. if path = ''/app/public/docs/supplier.docx'' then Some [80, 75, 3, 4] else None)
        ''/app'' =
     Inr \<lparr> status = 200,
           headers = [(''Content-Type'',
             ''application/vnd.openxmlformats-officedocument.wordprocessingml.document'')],
           body = [80, 75, 3, 4] \<rparr>"
  using GET_supplier_nda
    [of "\<lambda>path. if path = ''/app/public/docs/supplier.docx'' then Some [80, 75, 3, 4] else None"
      "''/app''" "[80, 75, 3, 4]"]
  by simp

end
